theory Spec2Isabelle
  imports Complex_Main "HOL-Library.Word" "HOL-Library.Sublist"
begin

section \<open>Python values\<close>

text \<open>
  A Python \<open>str\<close> is a sequence of Unicode code points, so it is modelled as a list of
  naturals (an Isabelle \<open>char\<close> is only a byte). \<open>ustr\<close> embeds an ASCII literal.
  A \<open>bytes\<close> object is a list of 8-bit words.
\<close>

type_synonym pystr = "nat list"
type_synonym byte = "8 word"

definition ustr :: "string \<Rightarrow> pystr" where
  "ustr cs = map of_char cs"

text \<open>
  Python floats. A finite float is modelled by the rational number it stands for: the
  rounding of IEEE binary64 (and with it overflow to infinity, underflow and the sign
  of zero) is not modelled, arithmetic on finite values is exact. So the text
  \<open>1e400\<close> reads as the finite number it writes, where CPython gives \<open>inf\<close>, and
  an integer beyond \<open>2 ^ 53\<close> keeps all its digits. The special values are kept,
  because \<open>float\<close> parses them from text and \<open>np.nan\<close> is the loader's missing
  marker.
\<close>

datatype pyfloat = Finite rat | PosInf | NegInf | NaN

text \<open>
  The scalars of a spreadsheet cell: a null sentinel, a number, a Boolean, a text or a
  byte sequence. \<open>PyNone\<close> stands for the null sentinels other than the float NaN
  (\<open>None\<close>, \<open>pd.NA\<close>, \<open>pd.NaT\<close>). Other scalars (dates) are not modelled.
\<close>

datatype pyval =
    PyNone
  | PyFloat pyfloat
  | PyInt int
  | PyBool bool
  | PyStr pystr
  | PyBytes "byte list"

text \<open>
  Exceptions. \<open>ValueError\<close> (from \<open>float\<close>) and \<open>UnicodeDecodeError\<close> (from
  \<open>bytes.decode\<close>) are raised inside \<open>clean_currency\<close> only; the others carry the
  text that \<open>str(e)\<close> gives.
\<close>

datatype exn =
    ValueError
  | UnicodeDecodeError
  | AttributeError pystr
  | KeyError pystr
  | TypeError pystr
  | ParserError pystr

text \<open>
  A list comprehension or \<open>Series.apply\<close> over a function that may raise: the first
  exception ends it.
\<close>

fun try_map :: "('a \<Rightarrow> exn + 'b) \<Rightarrow> 'a list \<Rightarrow> exn + 'b list" where
  "try_map f [] = Inr []"
| "try_map f (x # xs) =
     (case f x of
        Inl e \<Rightarrow> Inl e
      | Inr y \<Rightarrow> (case try_map f xs of Inl e \<Rightarrow> Inl e | Inr ys \<Rightarrow> Inr (y # ys)))"

subsection \<open>Float arithmetic\<close>

fun fneg :: "pyfloat \<Rightarrow> pyfloat" where
  "fneg (Finite q) = Finite (- q)"
| "fneg PosInf = NegInf"
| "fneg NegInf = PosInf"
| "fneg NaN = NaN"

fun fadd :: "pyfloat \<Rightarrow> pyfloat \<Rightarrow> pyfloat" where
  "fadd NaN _ = NaN"
| "fadd _ NaN = NaN"
| "fadd (Finite a) (Finite b) = Finite (a + b)"
| "fadd PosInf NegInf = NaN"
| "fadd NegInf PosInf = NaN"
| "fadd PosInf _ = PosInf"
| "fadd NegInf _ = NegInf"
| "fadd (Finite a) b = b"

definition fsub :: "pyfloat \<Rightarrow> pyfloat \<Rightarrow> pyfloat" where
  "fsub a b = fadd a (fneg b)"

text \<open>The sign of a float: 1, 0 or -1; NaN has none.\<close>

fun fsign :: "pyfloat \<Rightarrow> int option" where
  "fsign (Finite q) = Some (if 0 < q then 1 else if q = 0 then 0 else - 1)"
| "fsign PosInf = Some 1"
| "fsign NegInf = Some (- 1)"
| "fsign NaN = None"

definition signed_inf :: "int \<Rightarrow> pyfloat" where
  "signed_inf s = (if 0 < s then PosInf else if s = 0 then NaN else NegInf)"

fun fmul :: "pyfloat \<Rightarrow> pyfloat \<Rightarrow> pyfloat" where
  "fmul (Finite a) (Finite b) = Finite (a * b)"
| "fmul a b =
     (case (fsign a, fsign b) of
        (Some s, Some t) \<Rightarrow> signed_inf (s * t)
      | _ \<Rightarrow> NaN)"

text \<open>
  Division as numpy and pandas do it: a zero divisor gives an infinity or NaN and
  raises nothing.
\<close>

fun fdiv :: "pyfloat \<Rightarrow> pyfloat \<Rightarrow> pyfloat" where
  "fdiv (Finite a) (Finite b) =
     (if b = 0 then signed_inf (if 0 < a then 1 else if a = 0 then 0 else - 1)
      else Finite (a / b))"
| "fdiv (Finite a) PosInf = Finite 0"
| "fdiv (Finite a) NegInf = Finite 0"
| "fdiv PosInf (Finite b) = (if 0 \<le> b then PosInf else NegInf)"
| "fdiv NegInf (Finite b) = (if 0 \<le> b then NegInf else PosInf)"
| "fdiv _ _ = NaN"

text \<open>\<open>x > 0\<close>: false for NaN.\<close>

fun fpos :: "pyfloat \<Rightarrow> bool" where
  "fpos (Finite q) = (0 < q)"
| "fpos PosInf = True"
| "fpos _ = False"

section \<open>String builtins\<close>

text \<open>The code points \<open>str.isspace\<close> accepts; \<open>str.strip()\<close> removes them at both ends.\<close>

definition is_space :: "nat \<Rightarrow> bool" where
  "is_space c =
     (c \<in> set [9, 10, 11, 12, 13, 28, 29, 30, 31, 32, 133, 160, 5760,
                8232, 8233, 8239, 8287, 12288]
      \<or> (8192 \<le> c \<and> c \<le> 8202))"

definition strip :: "pystr \<Rightarrow> pystr" where
  "strip s = rev (dropWhile is_space (rev (dropWhile is_space s)))"

definition startswith :: "pystr \<Rightarrow> pystr \<Rightarrow> bool" where
  "startswith s p = (take (length p) s = p)"

definition endswith :: "pystr \<Rightarrow> pystr \<Rightarrow> bool" where
  "endswith s p = (length p \<le> length s \<and> drop (length s - length p) s = p)"

text \<open>\<open>s.replace(ch, '')\<close> and \<open>s.replace(a, b)\<close> for one-character arguments.\<close>

definition remove_char :: "nat \<Rightarrow> pystr \<Rightarrow> pystr" where
  "remove_char ch s = filter (\<lambda>c. c \<noteq> ch) s"

definition replace_char :: "nat \<Rightarrow> nat \<Rightarrow> pystr \<Rightarrow> pystr" where
  "replace_char a b s = map (\<lambda>c. if c = a then b else c) s"

text \<open>
  \<open>str.lower()\<close>. Only the ASCII letters are mapped. Python also lowers letters beyond
  ASCII, but the only two that produce an ASCII letter are U+0130 (to \<open>i\<close> followed by
  U+0307) and U+212A (to \<open>k\<close>), and neither can take part in an occurrence of the
  patterns the loader searches for.
\<close>

definition lower :: "pystr \<Rightarrow> pystr" where
  "lower s = map (\<lambda>c. if 65 \<le> c \<and> c \<le> 90 then c + 32 else c) s"

text \<open>\<open>sub in s\<close>: \<open>sub\<close> occurs in \<open>s\<close> as a contiguous run.\<close>

fun py_in :: "pystr \<Rightarrow> pystr \<Rightarrow> bool" where
  "py_in sub [] = (sub = [])"
| "py_in sub (c # cs) = (startswith (c # cs) sub \<or> py_in sub cs)"

subsection \<open>Decoding bytes\<close>

definition cont :: "nat \<Rightarrow> bool" where
  "cont b = (128 \<le> b \<and> b \<le> 191)"

text \<open>
  Strict UTF-8, as \<open>bytes.decode('utf-8')\<close>: no overlong forms, no surrogates, nothing
  above U+10FFFF. \<open>None\<close> is the \<open>UnicodeDecodeError\<close>.
\<close>

fun utf8 :: "nat list \<Rightarrow> pystr option" where
  "utf8 [] = Some []"
| "utf8 (b0 # bs) =
     (if b0 < 128 then map_option ((#) b0) (utf8 bs)
      else if 194 \<le> b0 \<and> b0 \<le> 223 then
        (case bs of
           b1 # r \<Rightarrow>
             if cont b1
             then map_option ((#) ((b0 - 192) * 64 + (b1 - 128))) (utf8 r)
             else None
         | _ \<Rightarrow> None)
      else if 224 \<le> b0 \<and> b0 \<le> 239 then
        (case bs of
           b1 # b2 # r \<Rightarrow>
             if (if b0 = 224 then 160 \<le> b1 \<and> b1 \<le> 191
                 else if b0 = 237 then 128 \<le> b1 \<and> b1 \<le> 159
                 else cont b1) \<and> cont b2
             then map_option
                    ((#) ((b0 - 224) * 4096 + (b1 - 128) * 64 + (b2 - 128))) (utf8 r)
             else None
         | _ \<Rightarrow> None)
      else if 240 \<le> b0 \<and> b0 \<le> 244 then
        (case bs of
           b1 # b2 # b3 # r \<Rightarrow>
             if (if b0 = 240 then 144 \<le> b1 \<and> b1 \<le> 191
                 else if b0 = 244 then 128 \<le> b1 \<and> b1 \<le> 143
                 else cont b1) \<and> cont b2 \<and> cont b3
             then map_option
                    ((#) ((b0 - 240) * 262144 + (b1 - 128) * 4096
                          + (b2 - 128) * 64 + (b3 - 128))) (utf8 r)
             else None
         | _ \<Rightarrow> None)
      else None)"

definition decode_utf8 :: "byte list \<Rightarrow> exn + pystr" where
  "decode_utf8 bs = (case utf8 (map unat bs) of None \<Rightarrow> Inl UnicodeDecodeError | Some s \<Rightarrow> Inr s)"

text \<open>
  \<open>bytes.decode('latin1', errors='ignore')\<close>: every byte is a Latin-1 code point, so
  the error handler never has a byte to drop.
\<close>

definition decode_latin1_ignore :: "byte list \<Rightarrow> pystr" where
  "decode_latin1_ignore bs = map unat bs"

subsection \<open>The builtin \<open>float\<close> on a string\<close>

definition is_digit :: "nat \<Rightarrow> bool" where
  "is_digit c = (48 \<le> c \<and> c \<le> 57)"

text \<open>
  The first code point of each run of ten decimal digits (Unicode 14, general category
  Nd): \<open>float\<close> reads any of them as the ASCII digit of the same value.
\<close>

definition digit_blocks :: "nat list" where
  "digit_blocks =
     [48, 1632, 1776, 1984, 2406, 2534, 2662, 2790, 2918, 3046, 3174, 3302, 3430,
      3558, 3664, 3792, 3872, 4160, 4240, 6112, 6160, 6470, 6608, 6784, 6800, 6992,
      7088, 7232, 7248, 42528, 43216, 43264, 43472, 43504, 43600, 44016, 65296,
      66720, 68912, 69734, 69872, 69942, 70096, 70384, 70736, 70864, 71248, 71360,
      71472, 71904, 72016, 72784, 73040, 73120, 92768, 92864, 93008, 120782, 120792,
      120802, 120812, 120822, 123200, 123632, 125264, 130032]"

definition unicode_decimal :: "nat \<Rightarrow> nat option" where
  "unicode_decimal c =
     map_option (\<lambda>b. c - b) (find (\<lambda>b. b \<le> c \<and> c < b + 10) digit_blocks)"

text \<open>
  Step 1 of \<open>float(s)\<close>: every Unicode space becomes an ASCII space and every Unicode
  digit its ASCII digit; at any other code point from 127 on the text is cut off behind
  a question mark, which no number contains.
\<close>

fun to_ascii :: "pystr \<Rightarrow> pystr" where
  "to_ascii [] = []"
| "to_ascii (c # cs) =
     (if c < 127 then c # to_ascii cs
      else if is_space c then 32 # to_ascii cs
      else (case unicode_decimal c of
              None \<Rightarrow> [63]
            | Some d \<Rightarrow> (48 + d) # to_ascii cs))"

definition ascii_space :: "nat \<Rightarrow> bool" where
  "ascii_space c = ((9 \<le> c \<and> c \<le> 13) \<or> c = 32)"

definition strip_ascii :: "pystr \<Rightarrow> pystr" where
  "strip_ascii s = rev (dropWhile ascii_space (rev (dropWhile ascii_space s)))"

text \<open>
  Step 2: an underscore is allowed between two digits only. The first argument is the
  previous character (0 at the start).
\<close>

fun underscores_ok :: "nat \<Rightarrow> pystr \<Rightarrow> bool" where
  "underscores_ok prev [] = (prev \<noteq> 95)"
| "underscores_ok prev (c # cs) =
     (if c = 95 then is_digit prev \<and> underscores_ok c cs
      else if prev = 95 then is_digit c \<and> underscores_ok c cs
      else underscores_ok c cs)"

text \<open>
  Step 3: the number itself, \<open>[sign] digits [. digits] [e [sign] digits]\<close> with at
  least one digit before the exponent, or \<open>[sign] inf | infinity | nan\<close> in any case.
\<close>

definition digits_val :: "pystr \<Rightarrow> nat" where
  "digits_val ds = foldl (\<lambda>a d. 10 * a + (d - 48)) 0 ds"

definition pow10 :: "int \<Rightarrow> rat" where
  "pow10 e = (if 0 \<le> e then 10 ^ nat e else 1 / 10 ^ nat (- e))"

definition take_sign :: "pystr \<Rightarrow> bool \<times> pystr" where
  "take_sign s =
     (case s of
        c # cs \<Rightarrow> if c = 45 then (True, cs) else if c = 43 then (False, cs) else (False, s)
      | [] \<Rightarrow> (False, s))"

text \<open>
  The decimal prefix that \<open>strtod\<close> reads, with what is left of the text; \<open>None\<close>
  when there is no digit. An \<open>e\<close> that no digit follows is not part of the number.
\<close>

definition parse_decimal :: "pystr \<Rightarrow> (rat \<times> pystr) option" where
  "parse_decimal s =
     (let (neg, s1) = take_sign s;
          ip = takeWhile is_digit s1;
          s2 = dropWhile is_digit s1;
          has_point = (s2 \<noteq> [] \<and> hd s2 = 46);
          fp = (if has_point then takeWhile is_digit (tl s2) else []);
          s3 = (if has_point then dropWhile is_digit (tl s2) else s2)
      in if ip = [] \<and> fp = [] then None
         else
           let mant = of_nat (digits_val (ip @ fp)) / 10 ^ length fp;
               has_e = (s3 \<noteq> [] \<and> (hd s3 = 101 \<or> hd s3 = 69));
               (eneg, s4) = take_sign (tl s3);
               ed = takeWhile is_digit s4;
               s5 = dropWhile is_digit s4;
               (e, rest) =
                 (if has_e \<and> ed \<noteq> []
                  then (if eneg then - int (digits_val ed) else int (digits_val ed), s5)
                  else (0, s3));
               v = mant * pow10 e
           in Some (if neg then - v else v, rest))"

definition ascii_lower :: "nat \<Rightarrow> nat" where
  "ascii_lower c = (if 65 \<le> c \<and> c \<le> 90 then c + 32 else c)"

definition parse_inf_or_nan :: "pystr \<Rightarrow> pyfloat option" where
  "parse_inf_or_nan s =
     (let (neg, r) = take_sign s; w = map ascii_lower r
      in if w = ustr ''inf'' \<or> w = ustr ''infinity'' then Some (if neg then NegInf else PosInf)
         else if w = ustr ''nan'' then Some NaN
         else None)"

definition string_to_double :: "pystr \<Rightarrow> pyfloat option" where
  "string_to_double s =
     (case parse_decimal s of
        Some (v, rest) \<Rightarrow> if rest = [] then Some (Finite v) else None
      | None \<Rightarrow> parse_inf_or_nan s)"

definition py_float :: "pystr \<Rightarrow> exn + pyfloat" where
  "py_float s =
     (let t = strip_ascii (to_ascii s)
      in if 95 \<in> set t \<and> \<not> underscores_ok 0 t then Inl ValueError
         else (case string_to_double (remove_char 95 t) of
                 None \<Rightarrow> Inl ValueError
               | Some v \<Rightarrow> Inr v))"

section \<open>The value normalizer: \<open>clean_currency\<close>\<close>

text \<open>\<open>pd.isna\<close> on a scalar cell. It raises on nothing a cell can hold.\<close>

fun pd_isna :: "pyval \<Rightarrow> exn + bool" where
  "pd_isna PyNone = Inr True"
| "pd_isna (PyFloat NaN) = Inr True"
| "pd_isna _ = Inr False"

text \<open>The loop over \<open>['$', EURO, POUND, ',', '%', NBSP]\<close>, each removed everywhere.\<close>

definition strip_symbols :: "pystr \<Rightarrow> pystr" where
  "strip_symbols s = foldl (\<lambda>t ch. remove_char ch t) s [36, 8364, 163, 44, 37, 160]"

text \<open>Whether the trimmed text is wrapped in parentheses.\<close>

definition negative_flag :: "pystr \<Rightarrow> bool" where
  "negative_flag x = (startswith (strip x) [40] \<and> endswith (strip x) [41])"

text \<open>
  The text that reaches \<open>float\<close>: trimmed, the wrapping parentheses taken off, the
  symbols removed, the Unicode minus (U+2212) made an ASCII one, and trimmed again.
\<close>

definition cleaned :: "pystr \<Rightarrow> pystr" where
  "cleaned x =
     (let s = strip x;
          s = (if negative_flag x then strip (butlast (tl s)) else s);
          s = strip_symbols s;
          s = replace_char 8722 45 s
      in strip s)"

text \<open>The branch of \<open>clean_currency\<close> for a string.\<close>

definition clean_str :: "pystr \<Rightarrow> pyval" where
  "clean_str x =
     (if strip x = [] then PyFloat NaN
      else
        let s = cleaned x
        in if s \<in> set [[], ustr ''--'', ustr ''-''] then PyFloat NaN
           else (case py_float s of
                   Inr val \<Rightarrow> PyFloat (if negative_flag x then fneg val else val)
                 | Inl _ \<Rightarrow> PyStr s))"

definition clean_currency :: "pyval \<Rightarrow> exn + pyval" where
  "clean_currency x =
     (if (case pd_isna x of Inr b \<Rightarrow> b | Inl _ \<Rightarrow> False) then Inr (PyFloat NaN)
      else
        let x = (case x of
                   PyBytes bs \<Rightarrow>
                     (case decode_utf8 bs of
                        Inr s \<Rightarrow> PyStr s
                      | Inl _ \<Rightarrow> PyStr (decode_latin1_ignore bs))
                 | _ \<Rightarrow> x)
        in (case x of
              PyStr s \<Rightarrow> Inr (clean_str s)
            | _ \<Rightarrow> Inr x))"

text \<open>The three kinds of result the specification names.\<close>

definition is_missing :: "pyval \<Rightarrow> bool" where
  "is_missing v = (v = PyFloat NaN)"

definition is_residual :: "pyval \<Rightarrow> bool" where
  "is_residual v = (case v of PyStr _ \<Rightarrow> True | _ \<Rightarrow> False)"

definition is_number :: "pyval \<Rightarrow> bool" where
  "is_number v =
     (case v of
        PyFloat f \<Rightarrow> f \<noteq> NaN
      | PyInt _ \<Rightarrow> True
      | PyBool _ \<Rightarrow> True
      | _ \<Rightarrow> False)"







section \<open>The manifest loader: \<open>load_data\<close>\<close>

text \<open>
  A column label as the readers deliver it. \<open>read_csv\<close> labels every column with a
  text; \<open>read_excel\<close> keeps a header cell that holds a number or a date as that
  value, which is no \<open>str\<close>. \<open>NonText\<close> carries the name of the value's type
  (\<open>int\<close>, \<open>float\<close>, \<open>datetime\<close>).
\<close>

datatype label = Name pystr | NonText pystr

text \<open>
  A parsed table (a pandas \<open>DataFrame\<close>): its columns in order, each a label with
  its cells. Labels may repeat. In pandas all columns have the same number of cells.
  A \<open>named_frame\<close> is the table after the header normalization, when every label is a
  text.
\<close>

type_synonym frame = "(label \<times> pyval list) list"
type_synonym named_frame = "(pystr \<times> pyval list) list"

definition columns :: "('l \<times> pyval list) list \<Rightarrow> 'l list" where
  "columns df = map fst df"

text \<open>
  \<open>c.strip()\<close> on a label: a label that is no \<open>str\<close> has no such method, and the
  call raises \<open>AttributeError\<close> with the message
  \<open>'int' object has no attribute 'strip'\<close> (39 is the apostrophe).
\<close>

definition strip_label :: "label \<Rightarrow> exn + pystr" where
  "strip_label c =
     (case c of
        Name s \<Rightarrow> Inr (strip s)
      | NonText ty \<Rightarrow>
          Inl (AttributeError
                 ([39] @ ty @ [39] @ ustr '' object has no attribute ''
                  @ [39] @ ustr ''strip'' @ [39])))"

text \<open>\<open>df.columns = labels\<close>.\<close>

definition set_columns :: "pystr list \<Rightarrow> frame \<Rightarrow> named_frame" where
  "set_columns labels df = zip labels (map snd df)"

text \<open>
  An uploaded file: its name, and what each of the three pandas readers makes of its
  content (\<open>read_csv_latin1\<close> stands for \<open>file.seek(0)\<close> followed by the second
  \<open>read_csv\<close>).
\<close>

record uploaded_file =
  name :: pystr
  read_csv_utf8_sig :: "exn + frame"
  read_csv_latin1 :: "exn + frame"
  read_excel :: "exn + frame"

datatype status = OK | ERROR | CRITICAL_ERROR

text \<open>
  The \<open>Details\<close> string: a plain text, or the f-string
  \<open>Missing Columns. Found: {list(df.columns)}\<close>, kept as the list it prints.
\<close>

datatype details = Text pystr | MissingColumnsFound "pystr list"

text \<open>
  The frame of an OK summary: the table with its four added columns. They are kept
  beside the table, so a column of the file that already bears one of the four names
  is not overwritten here as it is in pandas.
\<close>

record raw_data =
  table :: named_frame
  Qty_Clean :: "pyfloat list"
  Retail_Clean :: "pyfloat list"
  Cost_Clean :: "pyfloat list"
  Total_Retail_Value :: "pyfloat list"

text \<open>One summary; \<open>Raw_Data = None\<close> is the empty \<open>pd.DataFrame()\<close>.\<close>

record summary =
  Filename :: pystr
  Status :: status
  Details :: details
  Items :: pyfloat
  Variety :: nat
  Total_Cost :: pyfloat
  Total_Retail :: pyfloat
  Raw_Data :: "raw_data option"

definition parse_file :: "uploaded_file \<Rightarrow> exn + frame" where
  "parse_file file =
     (if endswith (name file) (ustr ''.csv'')
      then (case read_csv_utf8_sig file of
              Inr df \<Rightarrow> Inr df
            | Inl _ \<Rightarrow> read_csv_latin1 file)
      else read_excel file)"

subsection \<open>Column resolution\<close>

text \<open>\<open>next((c for c in df.columns if P(c)), None)\<close>.\<close>

fun next_match :: "(pystr \<Rightarrow> bool) \<Rightarrow> pystr list \<Rightarrow> pystr option" where
  "next_match P [] = None"
| "next_match P (c # cs) = (if P c then Some c else next_match P cs)"

text \<open>Python truth of a resolved name: \<open>None\<close> and the empty string are false.\<close>

definition truthy :: "pystr option \<Rightarrow> bool" where
  "truthy r = (case r of None \<Rightarrow> False | Some c \<Rightarrow> c \<noteq> [])"

definition col_qty :: "pystr list \<Rightarrow> pystr option" where
  "col_qty cols = next_match (\<lambda>c. py_in (ustr ''qty'') (lower c)) cols"

definition col_retail :: "pystr list \<Rightarrow> pystr option" where
  "col_retail cols =
     (let r = next_match (\<lambda>c. py_in (ustr ''unit retail'') (lower c)) cols
      in if \<not> truthy r
         then next_match
                (\<lambda>c. py_in (ustr ''retail'') (lower c) \<and> \<not> py_in (ustr ''ext'') (lower c)) cols
         else r)"

definition col_ext_cost :: "pystr list \<Rightarrow> pystr option" where
  "col_ext_cost cols =
     (let r = next_match
                (\<lambda>c. py_in (ustr ''ext'') (lower c) \<and> py_in (ustr ''retail'') (lower c)) cols
      in if \<not> truthy r
         then next_match
                (\<lambda>c. py_in (ustr ''cost'') (lower c) \<and> py_in (ustr ''ext'') (lower c)) cols
         else r)"

subsection \<open>Row cleaning\<close>

text \<open>
  \<open>pd.to_numeric(..., errors='coerce')\<close> on one cleaned cell: a number stays, a text
  that \<open>float\<close> has refused is coerced to NaN. \<open>fillna(0)\<close> then makes every NaN 0.
\<close>

fun to_numeric_coerce :: "pyval \<Rightarrow> pyfloat" where
  "to_numeric_coerce (PyFloat f) = f"
| "to_numeric_coerce (PyInt n) = Finite (of_int n)"
| "to_numeric_coerce (PyBool b) = Finite (if b then 1 else 0)"
| "to_numeric_coerce _ = NaN"

definition fillna0 :: "pyfloat \<Rightarrow> pyfloat" where
  "fillna0 f = (if f = NaN then Finite 0 else f)"

text \<open>
  \<open>df[c]\<close>: every column labelled \<open>c\<close>. One is a \<open>Series\<close>; several are a
  \<open>DataFrame\<close>, which \<open>apply\<close> hands back whole and \<open>pd.to_numeric\<close> refuses with
  a \<open>TypeError\<close>; none is a \<open>KeyError\<close>.
\<close>

definition select :: "named_frame \<Rightarrow> pystr \<Rightarrow> pyval list list" where
  "select df c = map snd (filter (\<lambda>col. fst col = c) df)"

definition clean_column :: "named_frame \<Rightarrow> pystr \<Rightarrow> exn + pyfloat list" where
  "clean_column df c =
     (case select df c of
        [] \<Rightarrow> Inl (KeyError c)
      | [cells] \<Rightarrow>
          (case try_map clean_currency cells of
             Inl e \<Rightarrow> Inl e
           | Inr vs \<Rightarrow> Inr (map (\<lambda>v. fillna0 (to_numeric_coerce v)) vs))
      | _ \<Rightarrow> Inl (TypeError (ustr ''arg must be a list, tuple, 1-d array, or Series'')))"

text \<open>\<open>Series.sum()\<close>: NaN entries are skipped, an empty sum is 0.\<close>

definition psum :: "pyfloat list \<Rightarrow> pyfloat" where
  "psum xs = foldl fadd (Finite 0) (filter (\<lambda>v. v \<noteq> NaN) xs)"

subsection \<open>One file, and the batch\<close>

definition error_summary :: "pystr \<Rightarrow> status \<Rightarrow> details \<Rightarrow> summary" where
  "error_summary fname st d =
     \<lparr>Filename = fname, Status = st, Details = d, Items = Finite 0, Variety = 0,
      Total_Cost = Finite 0, Total_Retail = Finite 0, Raw_Data = None\<rparr>"

text \<open>
  The body of the \<open>try\<close> block for one file. The header normalization
  \<open>[c.strip() for c in df.columns]\<close> raises at the first label that is no text. The
  lower-cased \<open>cols\<close> and the optional description column \<open>col_desc\<close> are computed
  in the source but never used, so they are left out.
\<close>

definition process_file :: "uploaded_file \<Rightarrow> exn + summary" where
  "process_file file =
     (case parse_file file of
        Inl e \<Rightarrow> Inl e
      | Inr df0 \<Rightarrow>
     (case try_map strip_label (columns df0) of
        Inl e \<Rightarrow> Inl e
      | Inr labels \<Rightarrow>
          let df = set_columns labels df0;
              q = col_qty (columns df);
              r = col_retail (columns df);
              c = col_ext_cost (columns df)
          in if \<not> (truthy q \<and> truthy r \<and> truthy c)
             then Inr (error_summary (name file) ERROR (MissingColumnsFound (columns df)))
             else
               (case (q, r, c) of
                  (Some qn, Some rn, Some cn) \<Rightarrow>
                    (case clean_column df qn of
                       Inl e \<Rightarrow> Inl e
                     | Inr qty \<Rightarrow>
                    (case clean_column df rn of
                       Inl e \<Rightarrow> Inl e
                     | Inr retail \<Rightarrow>
                    (case clean_column df cn of
                       Inl e \<Rightarrow> Inl e
                     | Inr cost \<Rightarrow>
                         let total = map2 fmul qty retail
                         in Inr \<lparr>Filename = name file, Status = OK, Details = Text [],
                                 Items = psum qty,
                                 Variety = length (filter fpos qty),
                                 Total_Cost = psum cost,
                                 Total_Retail = psum total,
                                 Raw_Data = Some \<lparr>table = df, Qty_Clean = qty,
                                   Retail_Clean = retail, Cost_Clean = cost,
                                   Total_Retail_Value = total\<rparr>\<rparr>)))
                | _ \<Rightarrow> Inr (error_summary (name file) ERROR (MissingColumnsFound (columns df))))))"

text \<open>
  \<open>str(e)\<close>. The texts of the first two are CPython's opening words; neither
  exception can leave \<open>clean_currency\<close>.
\<close>

fun exn_message :: "exn \<Rightarrow> pystr" where
  "exn_message ValueError = ustr ''could not convert string to float''"
| "exn_message UnicodeDecodeError = ustr ''invalid start byte''"
| "exn_message (AttributeError m) = m"
| "exn_message (KeyError m) = m"
| "exn_message (TypeError m) = m"
| "exn_message (ParserError m) = m"

text \<open>The \<open>try\<close> block with its \<open>except Exception as e\<close>.\<close>

definition summarize :: "uploaded_file \<Rightarrow> summary" where
  "summarize file =
     (case process_file file of
        Inr s \<Rightarrow> s
      | Inl e \<Rightarrow> error_summary (name file) CRITICAL_ERROR (Text (exn_message e)))"

text \<open>The loop \<open>for file in uploaded_files\<close>, appending to \<open>all_data\<close>.\<close>

fun load_loop :: "summary list \<Rightarrow> uploaded_file list \<Rightarrow> summary list" where
  "load_loop all_data [] = all_data"
| "load_loop all_data (file # files) = load_loop (all_data @ [summarize file]) files"

definition load_data :: "uploaded_file list \<Rightarrow> summary list" where
  "load_data uploaded_files = load_loop [] uploaded_files"

section \<open>Scenario metrics\<close>

text \<open>
  The dashboard's arithmetic on the summaries with status OK: \<open>discount_scenario\<close> is
  the slider's integer percentage, \<open>freight_cost\<close> and \<open>misc_cost\<close> the two
  per-lot inputs. \<open>None\<close> when no summary is OK (the page shows a warning instead).
\<close>

record metrics =
  projected_revenue :: pyfloat
  total_expenses :: pyfloat
  projected_profit :: pyfloat
  roi :: pyfloat

definition valid_packages :: "summary list \<Rightarrow> summary list" where
  "valid_packages df_summary = filter (\<lambda>s. Status s = OK) df_summary"

definition dashboard :: "summary list \<Rightarrow> int \<Rightarrow> pyfloat \<Rightarrow> pyfloat \<Rightarrow> metrics option" where
  "dashboard df_summary discount_scenario freight_cost misc_cost =
     (let valid = valid_packages df_summary
      in if valid = [] then None
         else
           let num_packages = Finite (of_nat (length valid));
               total_freight = fmul freight_cost num_packages;
               total_misc = fmul misc_cost num_packages;
               total_purchase_cost = psum (map Total_Cost valid);
               total_retail_value = psum (map Total_Retail valid);
               revenue = fmul total_retail_value
                           (fdiv (Finite (of_int discount_scenario)) (Finite 100));
               expenses = fadd (fadd total_purchase_cost total_freight) total_misc;
               profit = fsub revenue expenses
           in Some \<lparr>projected_revenue = revenue, total_expenses = expenses,
                    projected_profit = profit,
                    roi = (if fpos expenses then fmul (fdiv profit expenses) (Finite 100)
                           else Finite 0)\<rparr>)"

text \<open>One line of the package comparison table.\<close>

record display_row =
  Projected_Revenue :: pyfloat
  Net_Profit :: pyfloat
  ROI :: pyfloat

definition display_df :: "summary \<Rightarrow> int \<Rightarrow> pyfloat \<Rightarrow> pyfloat \<Rightarrow> display_row" where
  "display_df s discount_scenario freight_cost misc_cost =
     (let revenue = fmul (Total_Retail s)
                      (fdiv (Finite (of_int discount_scenario)) (Finite 100));
          net = fsub (fsub revenue (Total_Cost s)) (fadd freight_cost misc_cost)
      in \<lparr>Projected_Revenue = revenue, Net_Profit = net,
          ROI = fmul (fdiv net (fadd (fadd (Total_Cost s) freight_cost) misc_cost))
                  (Finite 100)\<rparr>)"

section \<open>Example inputs\<close>

text \<open>
  The table pandas reads from the CSV text with header
  \<open>Qty,Unit Retail,Ext. Retail\<close> and the rows \<open>10,$5.00,$2.00\<close> and
  \<open>5,$10.00,$4.00\<close>: an integer column and two columns of text.
\<close>

definition example_frame :: frame where
  "example_frame =
     [(Name (ustr ''Qty''), [PyInt 10, PyInt 5]),
      (Name (ustr ''Unit Retail''), [PyStr (ustr ''$5.00''), PyStr (ustr ''$10.00'')]),
      (Name (ustr ''Ext. Retail''), [PyStr (ustr ''$2.00''), PyStr (ustr ''$4.00'')])]"

definition example_csv :: uploaded_file where
  "example_csv =
     \<lparr>name = ustr ''manifest.csv'',
      read_csv_utf8_sig = Inr example_frame,
      read_csv_latin1 = Inr example_frame,
      read_excel = Inl (ParserError (ustr ''File is not a zip file''))\<rparr>"

text \<open>
  A manifest with a credit in its cost column: one row, quantity 1, unit retail 0 and
  extended retail \<open>(5.00)\<close>.
\<close>

definition credit_csv :: uploaded_file where
  "credit_csv =
     \<lparr>name = ustr ''credit.csv'',
      read_csv_utf8_sig =
        Inr [(Name (ustr ''Qty''), [PyInt 1]),
             (Name (ustr ''Unit Retail''), [PyInt 0]),
             (Name (ustr ''Ext. Retail''), [PyStr (ustr ''(5.00)'')])],
      read_csv_latin1 = Inl (ParserError []),
      read_excel = Inl (ParserError [])\<rparr>"

text \<open>A file that no reader can parse, and one without any of the wanted columns.\<close>

definition broken_csv :: uploaded_file where
  "broken_csv =
     \<lparr>name = ustr ''broken.csv'',
      read_csv_utf8_sig = Inl (ParserError (ustr ''No columns to parse from file'')),
      read_csv_latin1 = Inl (ParserError (ustr ''No columns to parse from file'')),
      read_excel = Inl (ParserError (ustr ''File is not a zip file''))\<rparr>"



text \<open>
  The manifest of the specification's scenario example: total retail 100 and total
  cost 40.
\<close>

definition scenario_csv :: uploaded_file where
  "scenario_csv =
     \<lparr>name = ustr ''lot.csv'',
      read_csv_utf8_sig =
        Inr [(Name (ustr ''Qty''), [PyInt 10, PyInt 5]),
             (Name (ustr ''Unit Retail''), [PyStr (ustr ''$5.00''), PyStr (ustr ''$10.00'')]),
             (Name (ustr ''Ext. Retail''), [PyStr (ustr ''$20.00''), PyStr (ustr ''$20.00'')])],
      read_csv_latin1 = Inl (ParserError []),
      read_excel = Inl (ParserError [])\<rparr>"

section \<open>The specification's wording of column resolution\<close>

text \<open>
  The specification's rules, stated without the loader's search: a name contains a
  pattern when the pattern is a contiguous part of the lower-cased name, and a
  resolved column is the first name in column order that satisfies its rule.
\<close>

definition spec_contains :: "string \<Rightarrow> pystr \<Rightarrow> bool" where
  "spec_contains pat nm = sublist (ustr pat) (lower nm)"

definition spec_first_match :: "(pystr \<Rightarrow> bool) \<Rightarrow> pystr list \<Rightarrow> pystr option \<Rightarrow> bool" where
  "spec_first_match P cols r =
     (case r of
        None \<Rightarrow> list_all (\<lambda>c. \<not> P c) cols
      | Some c \<Rightarrow>
          (\<exists>i. i < length cols \<and> cols ! i = c \<and> P c \<and> list_all (\<lambda>d. \<not> P d) (take i cols)))"



section \<open>Evaluation rules\<close>

lemmas string_defs = ustr_def strip_def is_space_def startswith_def endswith_def
  remove_char_def replace_char_def lower_def

lemmas float_defs = py_float_def string_to_double_def parse_decimal_def parse_inf_or_nan_def
  take_sign_def strip_ascii_def ascii_space_def is_digit_def digits_val_def pow10_def
  ascii_lower_def unicode_decimal_def digit_blocks_def

lemmas clean_defs = clean_currency_def clean_str_def cleaned_def negative_flag_def
  strip_symbols_def decode_utf8_def decode_latin1_ignore_def cont_def

lemmas loader_defs = load_data_def summarize_def process_file_def parse_file_def
  columns_def set_columns_def col_qty_def col_retail_def col_ext_cost_def truthy_def
  clean_column_def select_def fillna0_def psum_def error_summary_def strip_label_def

section \<open>The value normalizer on examples\<close>

text \<open>
  Claim C3. \<open>clean_currency\<close> turns the text \<open>$1,234.56\<close> into the float 1234.56,
  and the text \<open>(1,234.56)\<close>, which is wrapped in parentheses, into the float
  -1234.56: the parentheses are taken off, the dollar sign and the grouping comma are
  removed, and the parsed float is negated.
\<close>

theorem normalize_currency_examples:
  "clean_currency (PyStr (ustr ''$1,234.56'')) = Inr (PyFloat (Finite 1234.56))
   \<and> clean_currency (PyStr (ustr ''(1,234.56)'')) = Inr (PyFloat (Finite (- 1234.56)))"
  by (simp add: clean_defs float_defs string_defs Let_def)


section \<open>The value normalizer on every input\<close>

lemma py_float_error: "py_float s = Inl e \<Longrightarrow> e = ValueError"
  by (auto simp: py_float_def Let_def split: if_splits option.splits)

lemma clean_str_kind: "is_missing (clean_str s) \<or> is_number (clean_str s) \<or> is_residual (clean_str s)"
  by (auto simp: clean_str_def Let_def is_missing_def is_number_def is_residual_def split: sum.splits)

text \<open>
  Claim C2, as stated, fails: the text \<open>1.234,56\<close> loses its comma with the other
  grouping symbols, what is left is \<open>1.23456\<close>, and \<open>float\<close> accepts it. The result is
  a number, neither the missing marker nor a residual text.
\<close>

theorem european_decimal_is_number:
  "clean_currency (PyStr (ustr ''1.234,56'')) = Inr (PyFloat (Finite 1.23456))
   \<and> \<not> is_missing (PyFloat (Finite 1.23456))
   \<and> \<not> is_residual (PyFloat (Finite 1.23456))"
  by (simp add: clean_defs float_defs string_defs Let_def is_missing_def is_residual_def)

text \<open>
  Claim C2, amended. For every text cell \<open>clean_currency\<close> raises nothing and returns
  one of three things: the missing marker NaN; the float that \<open>float\<close> reads from the
  cleaned text, negated when the text was wrapped in parentheses; or the cleaned text
  itself, and that only when \<open>float\<close> refuses it.
\<close>

theorem clean_currency_text:
  "\<exists>v. clean_currency (PyStr x) = Inr v
     \<and> (v = PyFloat NaN
        \<or> (\<exists>f. py_float (cleaned x) = Inr f
               \<and> v = PyFloat (if negative_flag x then fneg f else f))
        \<or> (v = PyStr (cleaned x) \<and> py_float (cleaned x) = Inl ValueError))"
proof (cases "py_float (cleaned x)")
  case (Inl e)
  then have "e = ValueError" by (rule py_float_error)
  with Inl show ?thesis
    by (simp add: clean_currency_def clean_str_def Let_def)
next
  case (Inr f)
  then show ?thesis
    by (simp add: clean_currency_def clean_str_def Let_def)
qed

text \<open>
  Claim C4. \<open>clean_currency\<close> is total: for every cell (a null sentinel, a float, an
  integer, a Boolean, a text or a byte sequence) it returns a value and raises nothing,
  and the value is the missing marker, a number or a residual text. A byte sequence
  that is not valid UTF-8 is treated as the text of its Latin-1 decoding, in which no
  byte is invalid and so none is dropped.
\<close>

theorem clean_currency_total:
  "(\<exists>v. clean_currency x = Inr v \<and> (is_missing v \<or> is_number v \<or> is_residual v))
   \<and> (\<forall>e. decode_utf8 bs = Inl e \<longrightarrow>
         clean_currency (PyBytes bs) = clean_currency (PyStr (decode_latin1_ignore bs)))"
proof
  show "\<exists>v. clean_currency x = Inr v \<and> (is_missing v \<or> is_number v \<or> is_residual v)"
  proof (cases x)
    case (PyFloat f)
    then show ?thesis
      by (cases f) (simp_all add: clean_currency_def is_missing_def is_number_def)
  next
    case (PyStr s)
    then show ?thesis using clean_str_kind [of s]
      by (simp add: clean_currency_def)
  next
    case (PyBytes b)
    then show ?thesis
      using clean_str_kind [of "decode_latin1_ignore b"] clean_str_kind
      by (auto simp: clean_currency_def split: sum.splits)
  qed (simp_all add: clean_currency_def is_missing_def is_number_def)
  show "\<forall>e. decode_utf8 bs = Inl e \<longrightarrow>
         clean_currency (PyBytes bs) = clean_currency (PyStr (decode_latin1_ignore bs))"
    by (simp add: clean_currency_def)
qed

theorem clean_currency_total_witness:
  "decode_utf8 [0xA3, 0x35] = Inl UnicodeDecodeError
   \<and> clean_currency (PyBytes [0xA3, 0x35]) = clean_currency (PyStr [163, 53])
   \<and> clean_currency (PyBytes [0xA3, 0x35]) = Inr (PyFloat (Finite 5))"
proof -
  have d: "decode_utf8 [0xA3, 0x35] = Inl UnicodeDecodeError"
    by (simp add: decode_utf8_def)
  have l: "decode_latin1_ignore [0xA3, 0x35] = [163, 53]"
    by (simp add: decode_latin1_ignore_def)
  from clean_currency_total [of "PyBytes [0xA3, 0x35]" "[0xA3, 0x35]"] d l
  have e: "clean_currency (PyBytes [0xA3, 0x35]) = clean_currency (PyStr [163, 53])"
    by simp
  have "clean_currency (PyStr [163, 53]) = Inr (PyFloat (Finite 5))"
    by (simp add: clean_defs float_defs string_defs Let_def)
  with d e show ?thesis by simp
qed

section \<open>The loader on the example manifest\<close>

text \<open>
  Claim C1, as stated, fails: for the example manifest the loader does not return a
  total cost of 40. \<open>Total_Cost\<close> is the sum of the cleaned cost column, and the
  quantities do not enter it.
\<close>

theorem example_total_cost_is_not_40:
  "\<not> (map Status (load_data [example_csv]) = [OK]
      \<and> map Items (load_data [example_csv]) = [Finite 15]
      \<and> map Variety (load_data [example_csv]) = [2]
      \<and> map Total_Retail (load_data [example_csv]) = [Finite 100]
      \<and> map Total_Cost (load_data [example_csv]) = [Finite 40])"
  by (simp add: loader_defs example_csv_def example_frame_def clean_defs float_defs string_defs Let_def)

text \<open>
  Claim C1, amended. For the CSV file with header \<open>Qty,Unit Retail,Ext. Retail\<close> and
  the rows \<open>(10, $5.00, $2.00)\<close> and \<open>(5, $10.00, $4.00)\<close> the loader returns one
  summary with status OK, empty details, 15 items, variety 2, total retail
  \<open>10 * 5 + 5 * 10 = 100\<close> and total cost \<open>2 + 4 = 6\<close>.
\<close>

theorem example_manifest_summary:
  "map Filename (load_data [example_csv]) = [ustr ''manifest.csv'']
   \<and> map Status (load_data [example_csv]) = [OK]
   \<and> map Details (load_data [example_csv]) = [Text []]
   \<and> map Items (load_data [example_csv]) = [Finite 15]
   \<and> map Variety (load_data [example_csv]) = [2]
   \<and> map Total_Retail (load_data [example_csv]) = [Finite (10 * 5 + 5 * 10)]
   \<and> map Total_Cost (load_data [example_csv]) = [Finite (2 + 4)]"
  by (simp add: loader_defs example_csv_def example_frame_def clean_defs float_defs string_defs Let_def)

section \<open>Column resolution\<close>

lemma startswith_prefix: "startswith s p = prefix p s"
  unfolding startswith_def
proof
  assume "take (length p) s = p"
  then have "prefix (take (length p) s) s \<Longrightarrow> prefix p s" by simp
  then show "prefix p s" by (simp add: take_is_prefix)
next
  assume "prefix p s"
  then show "take (length p) s = p" by (auto simp: prefix_def)
qed

lemma py_in_sublist: "py_in sub s = sublist sub s"
  by (induction s) (auto simp: sublist_Cons_right startswith_prefix)

lemma next_match_first: "spec_first_match P cols (next_match P cols)"
proof (induction cols)
  case Nil
  then show ?case by (simp add: spec_first_match_def)
next
  case (Cons c cs)
  show ?case
  proof (cases "P c")
    case True
    then have "0 < length (c # cs) \<and> (c # cs) ! 0 = c \<and> P c \<and> list_all (\<lambda>d. \<not> P d) (take 0 (c # cs))"
      by simp
    then show ?thesis using True unfolding spec_first_match_def
      by (simp only: next_match.simps if_True option.case) (rule exI)
  next
    case False
    show ?thesis
    proof (cases "next_match P cs")
      case None
      with Cons False show ?thesis by (simp add: spec_first_match_def)
    next
      case (Some d)
      with Cons obtain i where i: "i < length cs" "cs ! i = d" "P d" "list_all (\<lambda>d. \<not> P d) (take i cs)"
        by (auto simp: spec_first_match_def)
      with False have "Suc i < length (c # cs) \<and> (c # cs) ! Suc i = d \<and> P d \<and> list_all (\<lambda>d. \<not> P d) (take (Suc i) (c # cs))"
        by simp
      then have "\<exists>j. j < length (c # cs) \<and> (c # cs) ! j = d \<and> P d \<and> list_all (\<lambda>d. \<not> P d) (take j (c # cs))"
        by (rule exI)
      with Some False show ?thesis by (simp add: spec_first_match_def)
    qed
  qed
qed

lemma next_match_None: "next_match P cols = None \<longleftrightarrow> \<not> list_ex P cols"
  by (induction cols) auto

lemma next_match_Some_holds: "next_match P cols = Some c \<Longrightarrow> P c"
  by (induction cols) (auto split: if_splits)

lemma truthy_next_match:
  assumes "\<And>c. P c \<Longrightarrow> c \<noteq> []"
  shows "truthy (next_match P cols) \<longleftrightarrow> list_ex P cols"
proof (cases "next_match P cols")
  case None
  then have "\<not> list_ex P cols" by (simp add: next_match_None)
  with None show ?thesis by (simp add: truthy_def)
next
  case (Some c)
  then have "P c" by (rule next_match_Some_holds)
  moreover from Some have "list_ex P cols" using next_match_None [of P cols] by simp
  ultimately show ?thesis using Some assms by (simp add: truthy_def)
qed

lemma py_in_spec: "(\<lambda>c. py_in (ustr p) (lower c)) = spec_contains p"
  by (simp add: fun_eq_iff spec_contains_def py_in_sublist)

lemma py_in_spec': "py_in (ustr p) (lower c) = spec_contains p c"
  by (simp add: spec_contains_def py_in_sublist)

text \<open>
  Claim C6. Column resolution matches names by case-insensitive substring, the first
  match in column order wins, and the precedence is: the quantity column is the first
  name containing \<open>qty\<close>; the retail column is the first name containing
  \<open>unit retail\<close> if there is one, else the first name containing \<open>retail\<close> but not
  \<open>ext\<close>; the cost column is the first name containing both \<open>ext\<close> and \<open>retail\<close>
  if there is one, else the first name containing both \<open>cost\<close> and \<open>ext\<close>. A
  column is unresolved exactly when no name satisfies its rule.
\<close>

theorem column_resolution:
  "spec_first_match (spec_contains ''qty'') cols (col_qty cols)
   \<and> (if list_ex (spec_contains ''unit retail'') cols
      then spec_first_match (spec_contains ''unit retail'') cols (col_retail cols)
      else spec_first_match
             (\<lambda>c. spec_contains ''retail'' c \<and> \<not> spec_contains ''ext'' c) cols (col_retail cols))
   \<and> (if list_ex (\<lambda>c. spec_contains ''ext'' c \<and> spec_contains ''retail'' c) cols
      then spec_first_match
             (\<lambda>c. spec_contains ''ext'' c \<and> spec_contains ''retail'' c) cols (col_ext_cost cols)
      else spec_first_match
             (\<lambda>c. spec_contains ''cost'' c \<and> spec_contains ''ext'' c) cols (col_ext_cost cols))"
proof -
  have ur: "\<And>c. spec_contains ''unit retail'' c \<Longrightarrow> c \<noteq> []"
    by (auto simp: spec_contains_def lower_def ustr_def)
  have er: "\<And>c. spec_contains ''ext'' c \<and> spec_contains ''retail'' c \<Longrightarrow> c \<noteq> []"
    by (auto simp: spec_contains_def lower_def ustr_def)
  have q: "spec_first_match (spec_contains ''qty'') cols (col_qty cols)"
    using next_match_first [of "spec_contains ''qty''" cols]
    by (simp add: col_qty_def py_in_spec)
  have r: "if list_ex (spec_contains ''unit retail'') cols
      then spec_first_match (spec_contains ''unit retail'') cols (col_retail cols)
      else spec_first_match
             (\<lambda>c. spec_contains ''retail'' c \<and> \<not> spec_contains ''ext'' c) cols (col_retail cols)"
    using next_match_first [of "spec_contains ''unit retail''" cols]
      next_match_first [of "\<lambda>c. spec_contains ''retail'' c \<and> \<not> spec_contains ''ext'' c" cols]
      truthy_next_match [of "spec_contains ''unit retail''" cols, OF ur]
    by (simp add: col_retail_def py_in_spec py_in_spec' Let_def)
  have c: "if list_ex (\<lambda>c. spec_contains ''ext'' c \<and> spec_contains ''retail'' c) cols
      then spec_first_match
             (\<lambda>c. spec_contains ''ext'' c \<and> spec_contains ''retail'' c) cols (col_ext_cost cols)
      else spec_first_match
             (\<lambda>c. spec_contains ''cost'' c \<and> spec_contains ''ext'' c) cols (col_ext_cost cols)"
    using next_match_first [of "\<lambda>c. spec_contains ''ext'' c \<and> spec_contains ''retail'' c" cols]
      next_match_first [of "\<lambda>c. spec_contains ''cost'' c \<and> spec_contains ''ext'' c" cols]
      truthy_next_match [of "\<lambda>c. spec_contains ''ext'' c \<and> spec_contains ''retail'' c" cols, OF er]
    by (simp add: col_ext_cost_def py_in_spec' Let_def)
  from q r c show ?thesis by (intro conjI)
qed

section \<open>The batch\<close>

lemma load_loop_append: "load_loop all_data files = all_data @ map summarize files"
  by (induction files arbitrary: all_data) simp_all

lemma load_data_map: "load_data files = map summarize files"
  by (simp add: load_data_def load_loop_append)

lemma process_file_Filename: "process_file file = Inr s \<Longrightarrow> Filename s = name file"
  by (auto simp: process_file_def Let_def error_summary_def
        split: sum.splits if_splits option.splits)

lemma summarize_Filename: "Filename (summarize file) = name file"
  by (auto simp: summarize_def error_summary_def process_file_Filename split: sum.splits)

lemma process_file_parse_error: "parse_file file = Inl e \<Longrightarrow> process_file file = Inl e"
  by (simp add: process_file_def)

text \<open>
  Claim C8. For a batch of N files the loader returns exactly N summaries, in the order
  of the files (the i-th summary bears the i-th file's name and is computed from that
  file alone), and no exception leaves the loader: a file whose parsing raises gets a
  CRITICAL ERROR summary with the exception's message as details and every aggregate
  zero, and the files around it are processed all the same.
\<close>

theorem load_data_batch:
  "length (load_data files) = length files
   \<and> map Filename (load_data files) = map name files
   \<and> (\<forall>i<length files. load_data files ! i = summarize (files ! i))
   \<and> (\<forall>i<length files. \<forall>e. parse_file (files ! i) = Inl e \<longrightarrow>
         load_data files ! i =
           \<lparr>Filename = name (files ! i), Status = CRITICAL_ERROR,
            Details = Text (exn_message e), Items = Finite 0, Variety = 0,
            Total_Cost = Finite 0, Total_Retail = Finite 0, Raw_Data = None\<rparr>)"
proof (intro conjI allI impI)
  show "length (load_data files) = length files"
    by (simp add: load_data_map)
  show "map Filename (load_data files) = map name files"
    by (simp add: load_data_map summarize_Filename)
next
  fix i assume "i < length files"
  then show "load_data files ! i = summarize (files ! i)"
    by (simp add: load_data_map)
next
  fix i e
  assume i: "i < length files" and e: "parse_file (files ! i) = Inl e"
  from e have "process_file (files ! i) = Inl e" by (rule process_file_parse_error)
  then have "summarize (files ! i) = error_summary (name (files ! i)) CRITICAL_ERROR (Text (exn_message e))"
    by (simp add: summarize_def)
  with i show "load_data files ! i =
           \<lparr>Filename = name (files ! i), Status = CRITICAL_ERROR,
            Details = Text (exn_message e), Items = Finite 0, Variety = 0,
            Total_Cost = Finite 0, Total_Retail = Finite 0, Raw_Data = None\<rparr>"
    by (simp add: load_data_map error_summary_def)
qed

theorem load_data_batch_witness:
  "length (load_data [broken_csv, example_csv]) = 2
   \<and> load_data [broken_csv, example_csv] ! 0 =
       \<lparr>Filename = ustr ''broken.csv'', Status = CRITICAL_ERROR,
        Details = Text (ustr ''No columns to parse from file''), Items = Finite 0,
        Variety = 0, Total_Cost = Finite 0, Total_Retail = Finite 0, Raw_Data = None\<rparr>
   \<and> map Filename (load_data [broken_csv, example_csv])
       = [ustr ''broken.csv'', ustr ''manifest.csv'']
   \<and> Status (load_data [broken_csv, example_csv] ! 1) = OK"
proof -
  let ?fs = "[broken_csv, example_csv]"
  note b = load_data_batch [of ?fs]
  have p: "parse_file (?fs ! 0) = Inl (ParserError (ustr ''No columns to parse from file''))"
    by (simp add: parse_file_def broken_csv_def string_defs)
  have n: "map name ?fs = [ustr ''broken.csv'', ustr ''manifest.csv'']"
    by (simp add: broken_csv_def example_csv_def)
  have s: "Status (summarize (?fs ! 1)) = OK"
    by (simp add: loader_defs example_csv_def example_frame_def clean_defs float_defs
        string_defs Let_def)
  from b have "length (load_data ?fs) = length ?fs" by (rule conjunct1)
  then have 1: "length (load_data ?fs) = 2" by simp
  from b have 2: "map Filename (load_data ?fs) = map name ?fs" by blast
  from b have "\<forall>i<length ?fs. load_data ?fs ! i = summarize (?fs ! i)" by blast
  then have "load_data ?fs ! 1 = summarize (?fs ! 1)" by simp
  with s have 3: "Status (load_data ?fs ! 1) = OK" by simp
  from b have "\<forall>i<length ?fs. \<forall>e. parse_file (?fs ! i) = Inl e \<longrightarrow>
         load_data ?fs ! i =
           \<lparr>Filename = name (?fs ! i), Status = CRITICAL_ERROR,
            Details = Text (exn_message e), Items = Finite 0, Variety = 0,
            Total_Cost = Finite 0, Total_Retail = Finite 0, Raw_Data = None\<rparr>" by blast
  then have "parse_file (?fs ! 0) = Inl (ParserError (ustr ''No columns to parse from file'')) \<longrightarrow>
         load_data ?fs ! 0 =
           \<lparr>Filename = name (?fs ! 0), Status = CRITICAL_ERROR,
            Details = Text (exn_message (ParserError (ustr ''No columns to parse from file''))),
            Items = Finite 0, Variety = 0,
            Total_Cost = Finite 0, Total_Retail = Finite 0, Raw_Data = None\<rparr>" by simp
  with p have 4: "load_data ?fs ! 0 =
           \<lparr>Filename = ustr ''broken.csv'', Status = CRITICAL_ERROR,
            Details = Text (ustr ''No columns to parse from file''),
            Items = Finite 0, Variety = 0,
            Total_Cost = Finite 0, Total_Retail = Finite 0, Raw_Data = None\<rparr>"
    by (simp add: broken_csv_def)
  from 1 2 3 4 n show ?thesis by simp
qed







section \<open>Rendering a number and normalizing it again\<close>

























section \<open>The scenario metrics on the summaries\<close>

text \<open>
  Claim C9, as stated, fails: for a manifest whose cost column holds the credit
  \<open>(5.00)\<close> the expenses are -5, not 0, and the profit is 5, yet the dashboard's ROI
  is 0, where profit / expenses * 100 is -100. The guard is \<open>total_expenses > 0\<close>.
\<close>

theorem roi_zero_for_negative_expenses:
  "dashboard (load_data [credit_csv]) 35 (Finite 0) (Finite 0) =
     Some \<lparr>projected_revenue = Finite 0, total_expenses = Finite (- 5),
           projected_profit = Finite 5, roi = Finite 0\<rparr>
   \<and> fmul (fdiv (Finite 5) (Finite (- 5))) (Finite 100) = Finite (- 100)"
  by (simp add: dashboard_def valid_packages_def fsub_def loader_defs credit_csv_def
      clean_defs float_defs string_defs Let_def)

text \<open>
  Claim C9, amended. With finite totals, a resale percentage \<open>P\<close> and per-file freight
  \<open>F\<close> and miscellaneous cost \<open>M\<close>, the dashboard computes
  revenue = total retail * (P / 100), expenses = total cost + overhead (the overhead
  being F and M once per valid file), profit = revenue - expenses, and
  ROI = profit / expenses * 100 when expenses are positive, 0 otherwise. Each line of
  the package table has revenue and profit by the same formulas on the file's own
  totals, and the same ROI when the file's expenses are positive.
\<close>

theorem scenario_metrics:
  assumes "valid_packages summaries \<noteq> []"
    and "psum (map Total_Retail (valid_packages summaries)) = Finite R"
    and "psum (map Total_Cost (valid_packages summaries)) = Finite C"
    and "Total_Retail s = Finite r"
    and "Total_Cost s = Finite c"
    and "E = C + F * of_nat (length (valid_packages summaries))
               + M * of_nat (length (valid_packages summaries))"
  shows "dashboard summaries P (Finite F) (Finite M) =
           Some \<lparr>projected_revenue = Finite (R * (of_int P / 100)),
                 total_expenses = Finite E,
                 projected_profit = Finite (R * (of_int P / 100) - E),
                 roi = Finite (if 0 < E then (R * (of_int P / 100) - E) / E * 100 else 0)\<rparr>
         \<and> Projected_Revenue (display_df s P (Finite F) (Finite M))
             = Finite (r * (of_int P / 100))
         \<and> Net_Profit (display_df s P (Finite F) (Finite M))
             = Finite (r * (of_int P / 100) - (c + (F + M)))
         \<and> (0 < c + (F + M) \<longrightarrow>
              ROI (display_df s P (Finite F) (Finite M))
                = Finite ((r * (of_int P / 100) - (c + (F + M))) / (c + (F + M)) * 100))"
proof (intro conjI impI)
  show "dashboard summaries P (Finite F) (Finite M) =
           Some \<lparr>projected_revenue = Finite (R * (of_int P / 100)),
                 total_expenses = Finite E,
                 projected_profit = Finite (R * (of_int P / 100) - E),
                 roi = Finite (if 0 < E then (R * (of_int P / 100) - E) / E * 100 else 0)\<rparr>"
    using assms(1,2,3,6) by (simp add: dashboard_def Let_def fsub_def)
  show "Projected_Revenue (display_df s P (Finite F) (Finite M))
             = Finite (r * (of_int P / 100))"
    using assms(4) by (simp add: display_df_def Let_def)
  show "Net_Profit (display_df s P (Finite F) (Finite M))
             = Finite (r * (of_int P / 100) - (c + (F + M)))"
    using assms(4,5) by (simp add: display_df_def Let_def fsub_def)
next
  assume "0 < c + (F + M)"
  then show "ROI (display_df s P (Finite F) (Finite M))
                = Finite ((r * (of_int P / 100) - (c + (F + M))) / (c + (F + M)) * 100)"
    using assms(4,5) by (simp add: display_df_def Let_def fsub_def add.assoc)
qed

theorem scenario_metrics_witness:
  "dashboard (load_data [scenario_csv]) 35 (Finite 0) (Finite 0) =
     Some \<lparr>projected_revenue = Finite 35, total_expenses = Finite 40,
           projected_profit = Finite (- 5), roi = Finite (- 12.5)\<rparr>
   \<and> ROI (display_df (hd (load_data [scenario_csv])) 35 (Finite 0) (Finite 0))
       = Finite (- 12.5)"
proof -
  let ?L = "load_data [scenario_csv]"
  have L: "valid_packages ?L = ?L" "length ?L = 1"
    "map Total_Retail ?L = [Finite 100]" "map Total_Cost ?L = [Finite 40]"
    by (simp_all add: valid_packages_def loader_defs scenario_csv_def clean_defs float_defs
        string_defs Let_def)
  from L have v: "valid_packages ?L \<noteq> []" by auto
  from L have R: "psum (map Total_Retail (valid_packages ?L)) = Finite 100"
    by (simp add: psum_def)
  from L have C: "psum (map Total_Cost (valid_packages ?L)) = Finite 40"
    by (simp add: psum_def)
  from L have s: "Total_Retail (hd ?L) = Finite 100" "Total_Cost (hd ?L) = Finite 40"
    by (cases ?L; simp)+
  have E: "(40::rat) = 40 + 0 * of_nat (length (valid_packages ?L))
      + 0 * of_nat (length (valid_packages ?L))" by simp
  from scenario_metrics [OF v R C s E, of 35] show ?thesis by simp
qed

text \<open>
  The package table divides without a guard: a file with no cost and no overhead gets
  an infinite ROI, not 0.
\<close>

lemma display_roi_unguarded:
  "ROI (display_df \<lparr>Filename = [], Status = OK, Details = Text [], Items = Finite 0,
          Variety = 0, Total_Cost = Finite 0, Total_Retail = Finite 100,
          Raw_Data = None\<rparr> 35 (Finite 0) (Finite 0)) = PosInf"
  by (simp add: display_df_def Let_def fsub_def signed_inf_def)

end
